theory Spec2Isabelle
  imports Main "HOL-Library.Sublist"
begin

section \<open>Python values used by the two decision engines\<close>

text \<open>
  The exceptions the modelled code can raise. \<open>KeyError k\<close> is a read of the missing
  key \<open>k\<close> of a dict, \<open>ProviderError\<close> any exception raised inside the mail-store
  adapter.
\<close>

datatype py_error =
    KeyError string
  | IndexError
  | TypeError
  | ValueError
  | OverflowError
  | ProviderError

text \<open>
  \<open>str.lower()\<close> on the ASCII letters; a \<open>char\<close> is a byte, and bytes outside
  \<open>A..Z\<close> are left unchanged.
\<close>

definition lower_char :: "char \<Rightarrow> char" where
  "lower_char c =
     (let n = (of_char c :: nat) in if 65 \<le> n \<and> n \<le> 90 then char_of (n + 32) else c)"

definition lower :: "string \<Rightarrow> string" where
  "lower s = map lower_char s"

text \<open>\<open>str.strip()\<close>: the ASCII white space is removed at both ends.\<close>

definition is_space :: "char \<Rightarrow> bool" where
  "is_space c = (let n = (of_char c :: nat) in (9 \<le> n \<and> n \<le> 13) \<or> (28 \<le> n \<and> n \<le> 32))"

definition strip :: "string \<Rightarrow> string" where
  "strip s = rev (dropWhile is_space (rev (dropWhile is_space s)))"

text \<open>\<open>s.split(sep)\<close> for a separator of one character: never the empty list.\<close>

fun str_split :: "char \<Rightarrow> string \<Rightarrow> string list" where
  "str_split sep [] = [[]]"
| "str_split sep (c # cs) =
     (if c = sep then [] # str_split sep cs
      else (case str_split sep cs of
              [] \<Rightarrow> [[c]]
            | p # ps \<Rightarrow> (c # p) # ps))"

text \<open>
  The subscript \<open>xs[i]\<close> of a list: positions \<open>0 .. len-1\<close> from the front,
  \<open>-1 .. -len\<close> from the back, IndexError for any other position.
\<close>

definition py_index :: "'a list \<Rightarrow> int \<Rightarrow> py_error + 'a" where
  "py_index xs i =
     (if 0 \<le> i \<and> i < int (length xs) then Inr (xs ! nat i)
      else if i < 0 \<and> - int (length xs) \<le> i then Inr (xs ! nat (int (length xs) + i))
      else Inl IndexError)"

text \<open>
  \<open>re.search(r'<([^>]+)>', s)\<close>, group 1 of the leftmost match: after a \<open><\<close>, the
  longest run of characters other than \<open>>\<close>, which must be non-empty and followed
  by a \<open>>\<close>. \<open>None\<close> is "no match".
\<close>

fun angle_search :: "string \<Rightarrow> string option" where
  "angle_search [] = None"
| "angle_search (c # cs) =
     (if c = CHR ''<''
         \<and> takeWhile (\<lambda>x. x \<noteq> CHR ''>'') cs \<noteq> []
         \<and> dropWhile (\<lambda>x. x \<noteq> CHR ''>'') cs \<noteq> []
      then Some (takeWhile (\<lambda>x. x \<noteq> CHR ''>'') cs)
      else angle_search cs)"

text \<open>
  The result of a block of \<open>_matches_criteria\<close>, or of one disjunct of
  \<open>_should_delete\<close>: it raises, or decides. \<open>and_then a b\<close> is "\<open>a\<close>; if it did
  not return False, go on with \<open>b\<close>", \<open>or_else a b\<close> is "\<open>a\<close>; if it did not return
  True, go on with \<open>b\<close>".
\<close>

definition and_then :: "py_error + bool \<Rightarrow> py_error + bool \<Rightarrow> py_error + bool" where
  "and_then a b = (case a of Inl err \<Rightarrow> Inl err | Inr ok \<Rightarrow> if ok then b else Inr False)"

definition or_else :: "py_error + bool \<Rightarrow> py_error + bool \<Rightarrow> py_error + bool" where
  "or_else a b = (case a of Inl err \<Rightarrow> Inl err | Inr ok \<Rightarrow> if ok then Inr True else b)"

section \<open>Data model\<close>

text \<open>
  An email is a dict. The keys the engines read are fields here, \<open>None\<close> for a key
  that the dict does not have (the IMAP adapter sets neither \<open>labels\<close> nor
  \<open>flags\<close>, and may bind \<open>date\<close> to \<open>None\<close>).
\<close>

record email =
  email_id :: string
  subject :: "string option"
  from_field :: "string option"
  body :: "string option"
  date :: "string option"
  labels :: "string list option"
  flags :: "string list option"

text \<open>The criteria dict of a label rule; \<open>crit_from\<close> is the key \<open>from\<close>.\<close>

record criteria =
  crit_from :: "string list option"
  from_domain :: "string list option"
  from_name :: "string list option"
  subject_contains :: "string list option"
  body_contains :: "string list option"

record label_config =
  name :: string
  criteria :: criteria
  notify :: bool

text \<open>
  The cleaning configuration. \<open>delete_newsletters\<close> and \<open>delete_read\<close> default to
  False and \<open>newsletter_domains\<close> to the empty list when the key is missing;
  \<open>delete_older_than\<close> is read with no default.
\<close>

record cleaning_config =
  delete_newsletters :: bool
  newsletter_domains :: "string list"
  delete_older_than :: "int option"
  delete_read :: bool

text \<open>
  The test \<open>'k' in criteria and criteria['k']\<close>: the key is there and its list is
  not empty. \<open>entries\<close> is the list that the following \<open>any(...)\<close> runs over.
\<close>

definition truthy_key :: "'a list option \<Rightarrow> bool" where
  "truthy_key v = (case v of None \<Rightarrow> False | Some xs \<Rightarrow> xs \<noteq> [])"

definition entries :: "'a list option \<Rightarrow> 'a list" where
  "entries v = (case v of None \<Rightarrow> [] | Some xs \<Rightarrow> xs)"

text \<open>\<open>email_data['k']\<close>.\<close>

definition get_key :: "string \<Rightarrow> 'a option \<Rightarrow> py_error + 'a" where
  "get_key k v = (case v of None \<Rightarrow> Inl (KeyError k) | Some x \<Rightarrow> Inr x)"

section \<open>Label matcher (classifier.py)\<close>

text \<open>
  \<open>email.utils.parseaddr\<close> belongs to the Python library; the functions of the
  classifier take it as the parameter \<open>parseaddr\<close>, a function from the header to
  the pair (display name, address).
\<close>

type_synonym parseaddr_fn = "string \<Rightarrow> string \<times> string"

definition extract_email :: "parseaddr_fn \<Rightarrow> string \<Rightarrow> string" where
  "extract_email parseaddr from_str = snd (parseaddr from_str)"

definition extract_name :: "parseaddr_fn \<Rightarrow> string \<Rightarrow> string" where
  "extract_name parseaddr from_str = fst (parseaddr from_str)"

text \<open>\<open>email.split('@')[1]\<close>, and the empty string on IndexError.\<close>

definition classifier_extract_domain :: "parseaddr_fn \<Rightarrow> string \<Rightarrow> string" where
  "classifier_extract_domain parseaddr from_str =
     (case py_index (str_split CHR ''@'' (snd (parseaddr from_str))) 1 of
        Inl err \<Rightarrow> []
      | Inr d \<Rightarrow> d)"

definition check_alternate_from_criteria ::
    "parseaddr_fn \<Rightarrow> email \<Rightarrow> criteria \<Rightarrow> py_error + bool" where
  "check_alternate_from_criteria parseaddr email_data crit =
     (if truthy_key (from_name crit) then
        (case get_key ''from'' (from_field email_data) of
           Inl err \<Rightarrow> Inl err
         | Inr f \<Rightarrow>
             Inr (list_ex (\<lambda>n. sublist (lower n) (lower (extract_name parseaddr f)))
                    (entries (from_name crit))))
      else Inr False)"

text \<open>The four blocks of \<open>_matches_criteria\<close>; each one passes, fails or raises.\<close>

definition from_block :: "parseaddr_fn \<Rightarrow> email \<Rightarrow> criteria \<Rightarrow> py_error + bool" where
  "from_block parseaddr email_data crit =
     (if truthy_key (crit_from crit) then
        (case get_key ''from'' (from_field email_data) of
           Inl err \<Rightarrow> Inl err
         | Inr f \<Rightarrow>
             if \<not> list_ex (\<lambda>a. lower (extract_email parseaddr f) = lower a)
                    (entries (crit_from crit))
             then check_alternate_from_criteria parseaddr email_data crit
             else Inr True)
      else Inr True)"

definition from_domain_block :: "parseaddr_fn \<Rightarrow> email \<Rightarrow> criteria \<Rightarrow> py_error + bool" where
  "from_domain_block parseaddr email_data crit =
     (if truthy_key (from_domain crit) then
        (case get_key ''from'' (from_field email_data) of
           Inl err \<Rightarrow> Inl err
         | Inr f \<Rightarrow>
             Inr (list_ex (\<lambda>d. suffix (lower d) (lower (classifier_extract_domain parseaddr f)))
                    (entries (from_domain crit))))
      else Inr True)"

definition subject_block :: "email \<Rightarrow> criteria \<Rightarrow> py_error + bool" where
  "subject_block email_data crit =
     (if truthy_key (subject_contains crit) then
        (case get_key ''subject'' (subject email_data) of
           Inl err \<Rightarrow> Inl err
         | Inr s \<Rightarrow>
             Inr (list_ex (\<lambda>k. sublist (lower k) (lower s)) (entries (subject_contains crit))))
      else Inr True)"

definition body_block :: "email \<Rightarrow> criteria \<Rightarrow> py_error + bool" where
  "body_block email_data crit =
     (if truthy_key (body_contains crit) then
        (case get_key ''body'' (body email_data) of
           Inl err \<Rightarrow> Inl err
         | Inr b \<Rightarrow>
             Inr (list_ex (\<lambda>k. sublist (lower k) (lower b)) (entries (body_contains crit))))
      else Inr True)"

definition matches_criteria :: "parseaddr_fn \<Rightarrow> email \<Rightarrow> criteria \<Rightarrow> py_error + bool" where
  "matches_criteria parseaddr email_data crit =
     and_then (from_block parseaddr email_data crit)
       (and_then (from_domain_block parseaddr email_data crit)
          (and_then (subject_block email_data crit)
             (body_block email_data crit)))"

fun rule_based_classify ::
    "parseaddr_fn \<Rightarrow> email \<Rightarrow> label_config list \<Rightarrow> py_error + string list" where
  "rule_based_classify parseaddr email_data [] = Inr []"
| "rule_based_classify parseaddr email_data (lc # lcs) =
     (case matches_criteria parseaddr email_data (criteria lc) of
        Inl err \<Rightarrow> Inl err
      | Inr m \<Rightarrow>
          (case rule_based_classify parseaddr email_data lcs of
             Inl err \<Rightarrow> Inl err
           | Inr ls \<Rightarrow> Inr (if m then name lc # ls else ls)))"

definition dummy_llm_call :: "email \<Rightarrow> string list" where
  "dummy_llm_call email_data = []"

definition llm_classify :: "email \<Rightarrow> string list" where
  "llm_classify email_data = dummy_llm_call email_data"

text \<open>
  \<open>list(set(xs))\<close>: the elements of \<open>xs\<close>, each once. Python leaves the order open;
  the model keeps the order of the last occurrences.
\<close>

definition list_of_set :: "string list \<Rightarrow> string list" where
  "list_of_set xs = remdups xs"

definition classify :: "parseaddr_fn \<Rightarrow> email \<Rightarrow> label_config list \<Rightarrow> py_error + string list" where
  "classify parseaddr email_data label_configs =
     (case rule_based_classify parseaddr email_data label_configs of
        Inl err \<Rightarrow> Inl err
      | Inr rule_based_labels \<Rightarrow>
          if rule_based_labels = [] \<or> True
          then Inr (list_of_set (rule_based_labels @ llm_classify email_data))
          else Inr rule_based_labels)"

text \<open>
  Modelled from the spec: \<open>email.utils.parseaddr\<close> is not part of the repository.
  The spec describes it as "split display name from angle-bracket address, or treat the
  whole string as an address if no angle brackets are present". This instance is used
  only at concrete headers of these two shapes.
\<close>

definition parseaddr_spec :: parseaddr_fn where
  "parseaddr_spec s =
     (case angle_search s of
        Some a \<Rightarrow> (strip (takeWhile (\<lambda>x. x \<noteq> CHR ''<'') s), a)
      | None \<Rightarrow> ([], strip s))"

section \<open>Retention evaluator (cleaner.py)\<close>

text \<open>
  \<open>EmailCleaner._extract_domain\<close>: the address is group 1 of the regular
  expression, or the stripped header when it does not match; the domain is
  \<open>email.split('@')[-1]\<close>, and the empty string on any exception.
\<close>

definition cleaner_extract_domain :: "string \<Rightarrow> string" where
  "cleaner_extract_domain from_str =
     (let email = (case angle_search from_str of Some a \<Rightarrow> a | None \<Rightarrow> strip from_str)
      in case py_index (str_split CHR ''@'' email) (- 1) of
           Inl err \<Rightarrow> []
         | Inr d \<Rightarrow> d)"

definition newsletter_keywords :: "string list" where
  "newsletter_keywords =
     [''newsletter'', ''subscribe'', ''update'', ''digest'', ''weekly'', ''monthly'']"

definition is_newsletter :: "cleaning_config \<Rightarrow> email \<Rightarrow> py_error + bool" where
  "is_newsletter config e =
     (case get_key ''from'' (from_field e) of
        Inl err \<Rightarrow> Inl err
      | Inr f \<Rightarrow>
          if list_ex (\<lambda>d. sublist (lower d) (lower (cleaner_extract_domain f)))
               (newsletter_domains config)
          then Inr True
          else
            (case get_key ''subject'' (subject e) of
               Inl err \<Rightarrow> Inl err
             | Inr s \<Rightarrow>
                 if list_ex (\<lambda>k. sublist k (lower s)) newsletter_keywords
                 then Inr True
                 else
                   (case get_key ''body'' (body e) of
                      Inl err \<Rightarrow> Inl err
                    | Inr b \<Rightarrow>
                        if sublist ''unsubscribe'' (lower b) then Inr True else Inr False)))"

text \<open>
  A \<open>datetime\<close>, in microseconds since 0001-01-01 00:00:00: \<open>Naive\<close> is a wall-clock
  time with no time zone (what \<open>datetime.now()\<close> returns, and what
  \<open>parsedate_to_datetime\<close> returns for a date with no zone or with the zone
  \<open>-0000\<close>), \<open>Aware\<close> an instant with a time zone, given in UTC (what
  \<open>parsedate_to_datetime\<close> returns for a date with any other zone).
\<close>

datatype datetime = Naive int | Aware int

text \<open>
  \<open>email.utils.parsedate_to_datetime\<close> belongs to the Python library and is the
  parameter \<open>parsedate\<close>; the clock \<open>datetime.now()\<close> is the parameter \<open>now\<close>.
\<close>

type_synonym parsedate_fn = "string \<Rightarrow> py_error + datetime"

text \<open>One past \<open>datetime.max\<close>: 3652059 days.\<close>

definition datetime_end :: int where
  "datetime_end = 3652059 * 86400000000"

text \<open>\<open>timedelta(days=d)\<close>: at most 999999999 days either way.\<close>

definition timedelta_days :: "int \<Rightarrow> py_error + int" where
  "timedelta_days d =
     (if - 999999999 \<le> d \<and> d \<le> 999999999 then Inr (d * 86400000000) else Inl OverflowError)"

text \<open>\<open>t - delta\<close> on a naive datetime: the result must be a datetime.\<close>

definition datetime_sub :: "int \<Rightarrow> int \<Rightarrow> py_error + int" where
  "datetime_sub t delta =
     (if 0 \<le> t - delta \<and> t - delta < datetime_end then Inr (t - delta) else Inl OverflowError)"

text \<open>\<open>a < b\<close> on datetimes: a naive one and an aware one do not compare.\<close>

fun datetime_less :: "datetime \<Rightarrow> datetime \<Rightarrow> py_error + bool" where
  "datetime_less (Naive a) (Naive b) = Inr (a < b)"
| "datetime_less (Aware a) (Aware b) = Inr (a < b)"
| "datetime_less (Naive a) (Aware b) = Inl TypeError"
| "datetime_less (Aware a) (Naive b) = Inl TypeError"

text \<open>
  The body of the \<open>try\<close> of \<open>_is_too_old\<close>. A \<open>date\<close> bound to \<open>None\<close> makes
  \<open>parsedate_to_datetime\<close> raise, a missing key makes the subscript raise: both
  are \<open>date e = None\<close> here.
\<close>

definition is_too_old_try :: "parsedate_fn \<Rightarrow> int \<Rightarrow> email \<Rightarrow> int \<Rightarrow> py_error + bool" where
  "is_too_old_try parsedate now e max_age_days =
     (case get_key ''date'' (date e) of
        Inl err \<Rightarrow> Inl err
      | Inr s \<Rightarrow>
          (case parsedate s of
             Inl err \<Rightarrow> Inl err
           | Inr email_date \<Rightarrow>
               (case timedelta_days max_age_days of
                  Inl err \<Rightarrow> Inl err
                | Inr delta \<Rightarrow>
                    (case datetime_sub now delta of
                       Inl err \<Rightarrow> Inl err
                     | Inr cutoff_date \<Rightarrow> datetime_less email_date (Naive cutoff_date)))))"

definition is_too_old :: "parsedate_fn \<Rightarrow> int \<Rightarrow> email \<Rightarrow> int \<Rightarrow> bool" where
  "is_too_old parsedate now e max_age_days =
     (case is_too_old_try parsedate now e max_age_days of
        Inl err \<Rightarrow> False
      | Inr b \<Rightarrow> b)"

text \<open>The IMAP flag \<open>\Seen\<close>: a backslash and four letters.\<close>

definition seen_flag :: string where
  "seen_flag = CHR 0x5C # ''Seen''"

definition is_read :: "email \<Rightarrow> bool" where
  "is_read e =
     (if (case labels e of None \<Rightarrow> False | Some ls \<Rightarrow> ''UNREAD'' \<notin> set ls) then True
      else if (case flags e of None \<Rightarrow> False | Some fs \<Rightarrow> seen_flag \<in> set fs) then True
      else False)"

text \<open>
  \<open>self.config.get('delete_older_than')\<close> is used as a condition: \<open>None\<close> (no such
  key) and \<open>0\<close> are false, every other integer is true.
\<close>

definition should_delete ::
    "parsedate_fn \<Rightarrow> int \<Rightarrow> cleaning_config \<Rightarrow> email \<Rightarrow> py_error + bool" where
  "should_delete parsedate now config e =
     or_else (if delete_newsletters config then is_newsletter config e else Inr False)
       (or_else
          (Inr (case delete_older_than config of
                  None \<Rightarrow> False
                | Some d \<Rightarrow> d \<noteq> 0 \<and> is_too_old parsedate now e d))
          (Inr (delete_read config \<and> is_read e)))"

text \<open>
  The loop of \<open>clean\<close>, from the count so far: the count when the loop ends, and the
  exception that ended it, if any. \<open>delete_email\<close> is the call into the mail-store
  adapter, which answers True, False, or raises; the last subscript is the one of the
  log line after a deletion.
\<close>

fun clean_loop ::
    "parsedate_fn \<Rightarrow> int \<Rightarrow> cleaning_config \<Rightarrow> (email \<Rightarrow> py_error + bool)
       \<Rightarrow> email list \<Rightarrow> nat \<Rightarrow> nat \<times> py_error option" where
  "clean_loop parsedate now config delete_email [] cleaned_count = (cleaned_count, None)"
| "clean_loop parsedate now config delete_email (e # es) cleaned_count =
     (case should_delete parsedate now config e of
        Inl err \<Rightarrow> (cleaned_count, Some err)
      | Inr wanted \<Rightarrow>
          if wanted then
            (case delete_email e of
               Inl err \<Rightarrow> (cleaned_count, Some err)
             | Inr ok \<Rightarrow>
                 if ok then
                   (case get_key ''subject'' (subject e) of
                      Inl err \<Rightarrow> (Suc cleaned_count, Some err)
                    | Inr s \<Rightarrow>
                        clean_loop parsedate now config delete_email es (Suc cleaned_count))
                 else clean_loop parsedate now config delete_email es cleaned_count)
          else clean_loop parsedate now config delete_email es cleaned_count)"

text \<open>
  \<open>clean\<close>: \<open>get_all_emails\<close> is the outcome of \<open>email_provider.get_all_emails()\<close>,
  the list of the mailbox or an exception.
\<close>

definition clean ::
    "parsedate_fn \<Rightarrow> int \<Rightarrow> cleaning_config \<Rightarrow> py_error + email list
       \<Rightarrow> (email \<Rightarrow> py_error + bool) \<Rightarrow> nat" where
  "clean parsedate now config get_all_emails delete_email =
     (case get_all_emails of
        Inl err \<Rightarrow> 0
      | Inr emails \<Rightarrow> fst (clean_loop parsedate now config delete_email emails 0))"

section \<open>The batch operation and the delete decision as the specification words them\<close>

text \<open>
  What one pass of the loop body of \<open>clean\<close> does with an email: \<open>body_raises\<close>
  holds when an exception leaves the body, \<open>deletion_succeeded\<close> when the email was
  to be deleted and the adapter answered True.
\<close>

definition body_raises ::
    "parsedate_fn \<Rightarrow> int \<Rightarrow> cleaning_config \<Rightarrow> (email \<Rightarrow> py_error + bool) \<Rightarrow> email \<Rightarrow> bool" where
  "body_raises parsedate now config delete_email e =
     (case should_delete parsedate now config e of
        Inl err \<Rightarrow> True
      | Inr wanted \<Rightarrow>
          wanted \<and> (case delete_email e of Inl err \<Rightarrow> True | Inr ok \<Rightarrow> ok \<and> subject e = None))"

definition deletion_succeeded ::
    "parsedate_fn \<Rightarrow> int \<Rightarrow> cleaning_config \<Rightarrow> (email \<Rightarrow> py_error + bool) \<Rightarrow> email \<Rightarrow> bool" where
  "deletion_succeeded parsedate now config delete_email e =
     (should_delete parsedate now config e = Inr True \<and> delete_email e = Inr True)"

text \<open>The emails up to and including the first one that satisfies \<open>stop\<close>.\<close>

definition up_to_first :: "('a \<Rightarrow> bool) \<Rightarrow> 'a list \<Rightarrow> 'a list" where
  "up_to_first stop xs =
     takeWhile (\<lambda>x. \<not> stop x) xs @ take 1 (dropWhile (\<lambda>x. \<not> stop x) xs)"

text \<open>
  The batch operation as the specification words it: every email of the mailbox is
  processed, a failure at one email is skipped, and the count is the number of emails
  that were deleted with success; a mailbox that cannot be listed gives the count so
  far, which is 0.
\<close>

definition clean_spec ::
    "parsedate_fn \<Rightarrow> int \<Rightarrow> cleaning_config \<Rightarrow> py_error + email list
       \<Rightarrow> (email \<Rightarrow> py_error + bool) \<Rightarrow> nat" where
  "clean_spec parsedate now config get_all_emails delete_email =
     (case get_all_emails of
        Inl err \<Rightarrow> 0
      | Inr emails \<Rightarrow> length (filter (deletion_succeeded parsedate now config delete_email) emails))"

text \<open>
  The delete decision as the specification words it: the age test applies whenever
  \<open>delete_older_than\<close> is set.
\<close>

definition should_delete_spec ::
    "parsedate_fn \<Rightarrow> int \<Rightarrow> cleaning_config \<Rightarrow> email \<Rightarrow> bool" where
  "should_delete_spec parsedate now config e =
     ((delete_newsletters config \<and> is_newsletter config e = Inr True)
      \<or> (case delete_older_than config of
            None \<Rightarrow> False
          | Some d \<Rightarrow> is_too_old parsedate now e d)
      \<or> (delete_read config \<and> is_read e))"

section \<open>Concrete inputs\<close>

text \<open>
  The date of the classifier's tests, once with the zone \<open>+0000\<close> and once with the
  zone \<open>-0000\<close>: 2025-03-16 10:00:00 is 739325 days and 36000 seconds after
  0001-01-01 00:00:00. \<open>example_parsedate\<close> is \<open>parsedate_to_datetime\<close> at these two
  strings (an aware datetime for the first, a naive one for the second) and rejects
  every other string; \<open>example_now\<close> is the clock at 2026-11-04 00:00:00.
\<close>

definition date_utc :: string where
  "date_utc = ''Mon, 16 Mar 2025 10:00:00 +0000''"

definition date_no_zone :: string where
  "date_no_zone = ''Mon, 16 Mar 2025 10:00:00 -0000''"

definition example_parsedate :: parsedate_fn where
  "example_parsedate s =
     (if s = date_utc then Inr (Aware 63877716000000000)
      else if s = date_no_zone then Inr (Naive 63877716000000000)
      else Inl ValueError)"

definition example_now :: int where
  "example_now = 63929347200000000"

text \<open>An unread Gmail message with nothing of a newsletter, from the given sender.\<close>

definition plain_mail :: "string \<Rightarrow> string \<Rightarrow> email" where
  "plain_mail i f =
     \<lparr>email_id = i, subject = Some ''Hello'', from_field = Some f,
      body = Some ''Just saying hello'', date = Some date_utc,
      labels = Some [''INBOX'', ''UNREAD''], flags = None\<rparr>"

definition no_criteria :: criteria where
  "no_criteria =
     \<lparr>crit_from = None, from_domain = None, from_name = None,
      subject_contains = None, body_contains = None\<rparr>"

text \<open>The rule \<open>Work\<close> of the classifier's tests: only \<open>from_domain\<close>.\<close>

definition work_rule :: label_config where
  "work_rule =
     \<lparr>name = ''Work'', criteria = no_criteria\<lparr>from_domain := Some [''company.com'']\<rparr>,
      notify = False\<rparr>"

text \<open>The rule \<open>Important\<close> of the classifier's tests, and one with a name to fall back on.\<close>

definition important_rule :: label_config where
  "important_rule =
     \<lparr>name = ''Important'',
      criteria = no_criteria\<lparr>crit_from := Some [''boss@company.com''],
                            subject_contains := Some [''urgent'']\<rparr>,
      notify = True\<rparr>"

definition boss_criteria :: criteria where
  "boss_criteria =
     no_criteria\<lparr>crit_from := Some [''boss@company.com''], from_name := Some [''boss'']\<rparr>"

text \<open>The configuration of the cleaner's tests, and one that asks for an age of 0 days only.\<close>

definition test_config :: cleaning_config where
  "test_config =
     \<lparr>delete_newsletters = True, newsletter_domains = [''newsletter.com'', ''marketing.com''],
      delete_older_than = Some 30, delete_read = True\<rparr>"

definition age_zero_config :: cleaning_config where
  "age_zero_config =
     \<lparr>delete_newsletters = False, newsletter_domains = [],
      delete_older_than = Some 0, delete_read = False\<rparr>"

text \<open>An adapter whose \<open>delete_email\<close> raises for the message with id 1.\<close>

definition flaky_delete :: "email \<Rightarrow> py_error + bool" where
  "flaky_delete e = (if email_id e = ''1'' then Inl ProviderError else Inr True)"

definition always_delete :: "email \<Rightarrow> py_error + bool" where
  "always_delete e = Inr True"

section \<open>Basic facts\<close>

lemma and_then_simps [simp]:
  "and_then (Inl err) b = Inl err"
  "and_then (Inr True) b = b"
  "and_then (Inr False) b = Inr False"
  by (simp_all add: and_then_def)

lemma or_else_simps [simp]:
  "or_else (Inl err) b = Inl err"
  "or_else (Inr True) b = Inr True"
  "or_else (Inr False) b = b"
  by (simp_all add: or_else_def)

lemma get_key_simps [simp]:
  "get_key k None = Inl (KeyError k)"
  "get_key k (Some x) = Inr x"
  by (simp_all add: get_key_def)

lemma truthy_key_simps [simp]:
  "truthy_key None = False"
  "truthy_key (Some xs) = (xs \<noteq> [])"
  by (simp_all add: truthy_key_def)

lemma entries_simps [simp]:
  "entries None = []"
  "entries (Some xs) = xs"
  by (simp_all add: entries_def)

section \<open>Label matcher: results\<close>

text \<open>A block raises only on a missing key of the email.\<close>

lemma and_then_Inl:
  "and_then a b = Inl err \<Longrightarrow> a = Inl err \<or> b = Inl err"
  by (auto simp: and_then_def split: sum.splits if_splits)

lemma from_block_raises:
  "from_block pa e c = Inl err \<Longrightarrow> from_field e = None"
  by (auto simp: from_block_def check_alternate_from_criteria_def get_key_def
           split: if_splits option.splits)

lemma from_domain_block_raises:
  "from_domain_block pa e c = Inl err \<Longrightarrow> from_field e = None"
  by (auto simp: from_domain_block_def get_key_def split: if_splits option.splits)

lemma subject_block_raises:
  "subject_block e c = Inl err \<Longrightarrow> subject e = None"
  by (auto simp: subject_block_def get_key_def split: if_splits option.splits)

lemma body_block_raises:
  "body_block e c = Inl err \<Longrightarrow> body e = None"
  by (auto simp: body_block_def get_key_def split: if_splits option.splits)

lemma matches_criteria_raises:
  assumes "matches_criteria pa e c = Inl err"
  shows "from_field e = None \<or> subject e = None \<or> body e = None"
proof -
  from assms consider
      "from_block pa e c = Inl err"
    | "from_domain_block pa e c = Inl err"
    | "subject_block e c = Inl err"
    | "body_block e c = Inl err"
    unfolding matches_criteria_def by (blast dest: and_then_Inl)
  then show ?thesis
    by cases (auto dest: from_block_raises from_domain_block_raises
                         subject_block_raises body_block_raises)
qed

lemma rule_based_classify_raises:
  "rule_based_classify pa e lcs = Inl err
     \<Longrightarrow> from_field e = None \<or> subject e = None \<or> body e = None"
proof (induction lcs)
  case Nil
  then show ?case by simp
next
  case (Cons lc lcs)
  show ?case
  proof (cases "matches_criteria pa e (criteria lc)")
    case (Inl err')
    then show ?thesis by (rule matches_criteria_raises)
  next
    case (Inr m)
    with Cons.prems have "rule_based_classify pa e lcs = Inl err"
      by (simp split: sum.splits)
    then show ?thesis by (rule Cons.IH)
  qed
qed

lemma rule_based_classify_names:
  "rule_based_classify pa e lcs = Inr ls \<Longrightarrow> set ls \<subseteq> set (map name lcs)"
proof (induction lcs arbitrary: ls)
  case Nil
  then show ?case by simp
next
  case (Cons lc lcs)
  from Cons.prems obtain m ls' where
    tl: "rule_based_classify pa e lcs = Inr ls'" and
    ls: "ls = (if m then name lc # ls' else ls')"
    by (auto split: sum.splits)
  from Cons.IH [OF tl] ls show ?case by auto
qed

text \<open>
  Claim C5. For every email and every list of rules, \<open>classify\<close> returns a list
  without duplicates whose elements are names of the rules. The only way not to
  return is the KeyError of an email that lacks \<open>from\<close>, \<open>subject\<close> or \<open>body\<close>.
\<close>

theorem classify_names:
  "case classify pa e lcs of
     Inl err \<Rightarrow> from_field e = None \<or> subject e = None \<or> body e = None
   | Inr ls \<Rightarrow> distinct ls \<and> set ls \<subseteq> set (map name lcs)"
proof (cases "rule_based_classify pa e lcs")
  case (Inl err)
  then have "classify pa e lcs = Inl err" by (simp add: classify_def)
  with rule_based_classify_raises [OF Inl] show ?thesis by simp
next
  case (Inr rb)
  then have "classify pa e lcs = Inr (remdups rb)"
    by (simp add: classify_def list_of_set_def llm_classify_def dummy_llm_call_def)
  with rule_based_classify_names [OF Inr] show ?thesis by simp
qed

theorem classify_names_witness:
  "classify parseaddr_spec
     ((plain_mail ''1'' ''boss@company.com'')\<lparr>subject := Some ''Urgent meeting''\<rparr>)
     [important_rule, work_rule, work_rule] = Inr [''Important'', ''Work'']
   \<and> distinct [''Important'', ''Work'']
   \<and> set [''Important'', ''Work''] \<subseteq> set (map name [important_rule, work_rule, work_rule])"
proof -
  have run: "classify parseaddr_spec
     ((plain_mail ''1'' ''boss@company.com'')\<lparr>subject := Some ''Urgent meeting''\<rparr>)
     [important_rule, work_rule, work_rule] = Inr [''Important'', ''Work'']"
    by code_simp
  from classify_names [where pa = parseaddr_spec
     and e = "(plain_mail ''1'' ''boss@company.com'')\<lparr>subject := Some ''Urgent meeting''\<rparr>"
     and lcs = "[important_rule, work_rule, work_rule]"] run
  show ?thesis by simp
qed

text \<open>The block for \<open>from\<close> comes first; the other blocks do not read \<open>from\<close>.\<close>

lemma matches_criteria_without_from:
  "matches_criteria pa e c =
     and_then (from_block pa e c) (matches_criteria pa e (c\<lparr>crit_from := None\<rparr>))"
  by (simp add: matches_criteria_def from_block_def from_domain_block_def
        subject_block_def body_block_def cong: sum.case_cong)

lemma matches_criteria_no_keys:
  "\<not> truthy_key (crit_from c) \<Longrightarrow> \<not> truthy_key (from_domain c)
     \<Longrightarrow> \<not> truthy_key (subject_contains c) \<Longrightarrow> \<not> truthy_key (body_contains c)
     \<Longrightarrow> matches_criteria pa e c = Inr True"
  by (simp add: matches_criteria_def from_block_def from_domain_block_def
        subject_block_def body_block_def)

lemma from_block_unmatched:
  assumes "truthy_key (crit_from c)" and "from_field e = Some f"
    and "\<not> list_ex (\<lambda>a. lower (snd (pa f)) = lower a) (entries (crit_from c))"
  shows "from_block pa e c =
           Inr (truthy_key (from_name c)
                \<and> list_ex (\<lambda>n. sublist (lower n) (lower (fst (pa f))))
                      (entries (from_name c)))"
  using assms
  by (simp add: from_block_def check_alternate_from_criteria_def extract_email_def
        extract_name_def)

text \<open>
  Claim C2. "Present" is the test of the source: the key is bound to a list with at
  least one entry (the data model lets a rule whose criteria are all empty match
  every email). The address and the display name are the two components that
  \<open>parseaddr\<close> returns for the header as the adapter delivers it. When \<open>from\<close> is
  present and the address equals none of its entries, ignoring case, the rule does
  not fail at once: if \<open>from_name\<close> is present and one of its entries is contained,
  ignoring case, in the display name, the rule is decided by its other criteria, and
  it matches when it has no other criteria; otherwise the rule fails. When \<open>from\<close> is
  not present, the entries of \<open>from_name\<close> are never read: the result is the same for
  every value of \<open>from_name\<close>, and a rule with no other criteria matches every email.
\<close>

theorem from_name_rescues_from_only:
  "(truthy_key (crit_from c) \<and> from_field e = Some f
      \<and> \<not> list_ex (\<lambda>a. lower (snd (pa f)) = lower a) (entries (crit_from c))
     \<longrightarrow> matches_criteria pa e c =
           (if truthy_key (from_name c)
               \<and> list_ex (\<lambda>n. sublist (lower n) (lower (fst (pa f)))) (entries (from_name c))
            then matches_criteria pa e (c\<lparr>crit_from := None\<rparr>)
            else Inr False)
         \<and> (\<not> truthy_key (from_domain c) \<and> \<not> truthy_key (subject_contains c)
              \<and> \<not> truthy_key (body_contains c)
            \<longrightarrow> matches_criteria pa e c =
                  Inr (truthy_key (from_name c)
                       \<and> list_ex (\<lambda>n. sublist (lower n) (lower (fst (pa f))))
                             (entries (from_name c)))))
   \<and> (\<not> truthy_key (crit_from c)
     \<longrightarrow> matches_criteria pa e (c\<lparr>from_name := names\<rparr>) = matches_criteria pa e c
         \<and> (\<not> truthy_key (from_domain c) \<and> \<not> truthy_key (subject_contains c)
              \<and> \<not> truthy_key (body_contains c)
            \<longrightarrow> matches_criteria pa e (c\<lparr>from_name := names\<rparr>) = Inr True))"
proof (intro conjI impI)
  assume unmatched: "truthy_key (crit_from c) \<and> from_field e = Some f
      \<and> \<not> list_ex (\<lambda>a. lower (snd (pa f)) = lower a) (entries (crit_from c))"
  let ?rescue = "truthy_key (from_name c)
      \<and> list_ex (\<lambda>n. sublist (lower n) (lower (fst (pa f)))) (entries (from_name c))"
  from unmatched have block: "from_block pa e c = Inr ?rescue"
    by (simp add: from_block_unmatched)
  have split: "matches_criteria pa e c =
      and_then (Inr ?rescue) (matches_criteria pa e (c\<lparr>crit_from := None\<rparr>))"
    using matches_criteria_without_from [of pa e c] block by simp
  show decided: "matches_criteria pa e c =
      (if ?rescue then matches_criteria pa e (c\<lparr>crit_from := None\<rparr>) else Inr False)"
    unfolding split by (simp add: and_then_def)
  assume alone: "\<not> truthy_key (from_domain c) \<and> \<not> truthy_key (subject_contains c)
      \<and> \<not> truthy_key (body_contains c)"
  then have "matches_criteria pa e (c\<lparr>crit_from := None\<rparr>) = Inr True"
    by (simp add: matches_criteria_no_keys)
  with decided show "matches_criteria pa e c = Inr ?rescue"
    by auto
next
  assume absent: "\<not> truthy_key (crit_from c)"
  then show same: "matches_criteria pa e (c\<lparr>from_name := names\<rparr>) = matches_criteria pa e c"
    by (simp add: matches_criteria_def from_block_def from_domain_block_def
          subject_block_def body_block_def cong: sum.case_cong)
  assume "\<not> truthy_key (from_domain c) \<and> \<not> truthy_key (subject_contains c)
      \<and> \<not> truthy_key (body_contains c)"
  with absent have "matches_criteria pa e c = Inr True"
    by (simp add: matches_criteria_no_keys)
  with same show "matches_criteria pa e (c\<lparr>from_name := names\<rparr>) = Inr True"
    by simp
qed

theorem from_name_rescues_from_only_witness:
  "matches_criteria parseaddr_spec (plain_mail ''1'' ''The Boss <other@corp.com>'')
     boss_criteria = Inr True
   \<and> matches_criteria parseaddr_spec (plain_mail ''2'' ''Alice <bossy@corp.com>'')
       boss_criteria = Inr False
   \<and> matches_criteria parseaddr_spec (plain_mail ''2'' ''Alice <bossy@corp.com>'')
       (no_criteria\<lparr>from_name := Some [''boss'']\<rparr>) = Inr True"
proof -
  let ?e1 = "plain_mail ''1'' ''The Boss <other@corp.com>''"
  let ?e2 = "plain_mail ''2'' ''Alice <bossy@corp.com>''"
  have alone: "\<not> truthy_key (from_domain boss_criteria)
      \<and> \<not> truthy_key (subject_contains boss_criteria)
      \<and> \<not> truthy_key (body_contains boss_criteria)"
    by code_simp
  have unmatched1: "truthy_key (crit_from boss_criteria)
      \<and> from_field ?e1 = Some ''The Boss <other@corp.com>''
      \<and> \<not> list_ex (\<lambda>a. lower (snd (parseaddr_spec ''The Boss <other@corp.com>'')) = lower a)
            (entries (crit_from boss_criteria))"
    by code_simp
  have rescue1: "truthy_key (from_name boss_criteria)
      \<and> list_ex (\<lambda>n. sublist (lower n)
                       (lower (fst (parseaddr_spec ''The Boss <other@corp.com>''))))
            (entries (from_name boss_criteria))"
    by code_simp
  have unmatched2: "truthy_key (crit_from boss_criteria)
      \<and> from_field ?e2 = Some ''Alice <bossy@corp.com>''
      \<and> \<not> list_ex (\<lambda>a. lower (snd (parseaddr_spec ''Alice <bossy@corp.com>'')) = lower a)
            (entries (crit_from boss_criteria))"
    by code_simp
  have rescue2: "\<not> (truthy_key (from_name boss_criteria)
      \<and> list_ex (\<lambda>n. sublist (lower n)
                       (lower (fst (parseaddr_spec ''Alice <bossy@corp.com>''))))
            (entries (from_name boss_criteria)))"
    by code_simp
  have absent: "\<not> truthy_key (crit_from no_criteria)
      \<and> \<not> truthy_key (from_domain no_criteria)
      \<and> \<not> truthy_key (subject_contains no_criteria)
      \<and> \<not> truthy_key (body_contains no_criteria)"
    by code_simp
  from from_name_rescues_from_only [where pa = parseaddr_spec and e = ?e1
      and c = boss_criteria and f = "''The Boss <other@corp.com>''"] unmatched1 alone
  have "matches_criteria parseaddr_spec ?e1 boss_criteria =
      Inr (truthy_key (from_name boss_criteria)
           \<and> list_ex (\<lambda>n. sublist (lower n)
                            (lower (fst (parseaddr_spec ''The Boss <other@corp.com>''))))
                 (entries (from_name boss_criteria)))"
    by blast
  with rescue1 have first: "matches_criteria parseaddr_spec ?e1 boss_criteria = Inr True"
    by simp
  from from_name_rescues_from_only [where pa = parseaddr_spec and e = ?e2
      and c = boss_criteria and f = "''Alice <bossy@corp.com>''"] unmatched2 alone
  have "matches_criteria parseaddr_spec ?e2 boss_criteria =
      Inr (truthy_key (from_name boss_criteria)
           \<and> list_ex (\<lambda>n. sublist (lower n)
                            (lower (fst (parseaddr_spec ''Alice <bossy@corp.com>''))))
                 (entries (from_name boss_criteria)))"
    by blast
  with rescue2 have second: "matches_criteria parseaddr_spec ?e2 boss_criteria = Inr False"
    by simp
  from from_name_rescues_from_only [where pa = parseaddr_spec and e = ?e2
      and c = no_criteria and names = "Some [''boss'']"] absent
  have "matches_criteria parseaddr_spec ?e2 (no_criteria\<lparr>from_name := Some [''boss'']\<rparr>)
      = Inr True"
    by blast
  with first second show ?thesis by simp
qed

section \<open>Domain rule of the label matcher\<close>

lemma from_block_ignores_from_domain:
  "from_block pa e (c\<lparr>from_domain := v\<rparr>) = from_block pa e c"
  by (cases "from_field e") (simp_all add: from_block_def check_alternate_from_criteria_def)

lemma matches_criteria_without_from_domain:
  assumes "from_domain_block pa e c = Inr True"
  shows "matches_criteria pa e c = matches_criteria pa e (c\<lparr>from_domain := None\<rparr>)"
proof -
  have "from_domain_block pa e (c\<lparr>from_domain := None\<rparr>) = Inr True"
    by (simp add: from_domain_block_def)
  moreover have "subject_block e (c\<lparr>from_domain := None\<rparr>) = subject_block e c"
    by (cases "subject e") (simp_all add: subject_block_def)
  moreover have "body_block e (c\<lparr>from_domain := None\<rparr>) = body_block e c"
    by (cases "body e") (simp_all add: body_block_def)
  ultimately show ?thesis
    using assms by (simp add: matches_criteria_def from_block_ignores_from_domain)
qed

lemma from_block_returns:
  "from_field e = Some f \<Longrightarrow> \<exists>ok. from_block pa e c = Inr ok"
  by (auto simp: from_block_def check_alternate_from_criteria_def)

text \<open>
  Claim C6, amended. With \<open>from_domain\<close> present (bound to a non-empty list) the
  block is a plain test for a string suffix, ignoring case: it fails, and the rule
  with it, iff the sender's domain ends with none of the entries; when it passes,
  the rule is decided by the other blocks. The rule with only
  \<open>from_domain = ["company.com"]\<close> matches \<open>a@sub.company.com\<close>, and it matches
  \<open>a@notcompany.com\<close> as well, since \<open>notcompany.com\<close> ends with \<open>company.com\<close>.
\<close>

theorem from_domain_is_string_suffix:
  "(truthy_key (from_domain c) \<and> from_field e = Some f
     \<longrightarrow> from_domain_block pa e c =
           Inr (list_ex (\<lambda>d. suffix (lower d) (lower (classifier_extract_domain pa f)))
                  (entries (from_domain c))))
   \<and> (from_field e = Some f \<and> from_domain_block pa e c = Inr False
     \<longrightarrow> matches_criteria pa e c = Inr False)
   \<and> (from_domain_block pa e c = Inr True
     \<longrightarrow> matches_criteria pa e c = matches_criteria pa e (c\<lparr>from_domain := None\<rparr>))
   \<and> matches_criteria parseaddr_spec (plain_mail ''1'' ''a@sub.company.com'')
       (criteria work_rule) = Inr True
   \<and> matches_criteria parseaddr_spec (plain_mail ''2'' ''a@notcompany.com'')
       (criteria work_rule) = Inr True"
proof (intro conjI impI)
  assume "truthy_key (from_domain c) \<and> from_field e = Some f"
  then show "from_domain_block pa e c =
      Inr (list_ex (\<lambda>d. suffix (lower d) (lower (classifier_extract_domain pa f)))
             (entries (from_domain c)))"
    by (simp add: from_domain_block_def)
next
  assume a: "from_field e = Some f \<and> from_domain_block pa e c = Inr False"
  then obtain ok where "from_block pa e c = Inr ok"
    using from_block_returns by blast
  with a show "matches_criteria pa e c = Inr False"
    by (cases ok) (simp_all add: matches_criteria_def)
next
  assume "from_domain_block pa e c = Inr True"
  then show "matches_criteria pa e c = matches_criteria pa e (c\<lparr>from_domain := None\<rparr>)"
    by (rule matches_criteria_without_from_domain)
next
  show "matches_criteria parseaddr_spec (plain_mail ''1'' ''a@sub.company.com'')
       (criteria work_rule) = Inr True"
    by code_simp
next
  show "matches_criteria parseaddr_spec (plain_mail ''2'' ''a@notcompany.com'')
       (criteria work_rule) = Inr True"
    by code_simp
qed

theorem from_domain_is_string_suffix_witness:
  "from_domain_block parseaddr_spec (plain_mail ''3'' ''a@example.org'') (criteria work_rule)
     = Inr False
   \<and> matches_criteria parseaddr_spec (plain_mail ''3'' ''a@example.org'') (criteria work_rule)
     = Inr False
   \<and> matches_criteria parseaddr_spec (plain_mail ''1'' ''a@sub.company.com'')
       (criteria work_rule)
     = matches_criteria parseaddr_spec (plain_mail ''1'' ''a@sub.company.com'')
         ((criteria work_rule)\<lparr>from_domain := None\<rparr>)"
proof -
  let ?e = "plain_mail ''3'' ''a@example.org''"
  let ?e' = "plain_mail ''1'' ''a@sub.company.com''"
  let ?c = "criteria work_rule"
  have hyp: "truthy_key (from_domain ?c) \<and> from_field ?e = Some ''a@example.org''"
    by code_simp
  have none: "\<not> list_ex (\<lambda>d. suffix (lower d)
                 (lower (classifier_extract_domain parseaddr_spec ''a@example.org'')))
               (entries (from_domain ?c))"
    by code_simp
  have pass: "from_domain_block parseaddr_spec ?e' ?c = Inr True"
    by code_simp
  note at_org = from_domain_is_string_suffix [where pa = parseaddr_spec and e = ?e
      and c = ?c and f = "''a@example.org''"]
  from at_org hyp have "from_domain_block parseaddr_spec ?e ?c =
      Inr (list_ex (\<lambda>d. suffix (lower d)
                 (lower (classifier_extract_domain parseaddr_spec ''a@example.org'')))
               (entries (from_domain ?c)))"
    by blast
  with none have fails: "from_domain_block parseaddr_spec ?e ?c = Inr False"
    by simp
  with at_org hyp have rule_fails: "matches_criteria parseaddr_spec ?e ?c = Inr False"
    by blast
  from from_domain_is_string_suffix [where pa = parseaddr_spec and e = ?e' and c = ?c] pass
  have "matches_criteria parseaddr_spec ?e' ?c
      = matches_criteria parseaddr_spec ?e' (?c\<lparr>from_domain := None\<rparr>)"
    by blast
  with fails rule_fails show ?thesis by simp
qed

text \<open>
  The claim as stated fails at its own example: the rule with only
  \<open>from_domain = ["company.com"]\<close> matches the email from \<open>a@notcompany.com\<close>.
\<close>

theorem from_domain_notcompany_counterexample:
  "matches_criteria parseaddr_spec (plain_mail ''2'' ''a@notcompany.com'')
     \<lparr>crit_from = None, from_domain = Some [''company.com''], from_name = None,
      subject_contains = None, body_contains = None\<rparr> = Inr True"
  by code_simp

section \<open>The two domain extractions\<close>

lemma str_split_no_sep:
  "sep \<notin> set s \<Longrightarrow> str_split sep s = [s]"
  by (induction s) auto

lemma classifier_extract_domain_no_at:
  "CHR ''@'' \<notin> set (snd (pa s)) \<Longrightarrow> classifier_extract_domain pa s = []"
  by (simp add: classifier_extract_domain_def str_split_no_sep py_index_def)

lemma cleaner_extract_domain_no_at:
  "angle_search s = None \<Longrightarrow> CHR ''@'' \<notin> set (strip s)
     \<Longrightarrow> cleaner_extract_domain s = strip s"
  by (simp add: cleaner_extract_domain_def str_split_no_sep py_index_def)

text \<open>
  Claim C3 at the header \<open>MAILER-DAEMON\<close>, an address with no \<open>@\<close>: the label
  matcher's extraction gives the empty string, the retention evaluator's gives the
  whole address.
\<close>

theorem extract_domain_differs_without_at:
  "classifier_extract_domain parseaddr_spec ''MAILER-DAEMON'' = ''''
   \<and> cleaner_extract_domain ''MAILER-DAEMON'' = ''MAILER-DAEMON''"
  by code_simp

section \<open>Retention evaluator: results\<close>

lemma lower_sublist:
  "sublist u b \<Longrightarrow> sublist (lower u) (lower b)"
  unfolding lower_def by (rule map_mono_sublist)

text \<open>
  What \<open>is_newsletter\<close> computes for an email that has \<open>from\<close>, \<open>subject\<close> and
  \<open>body\<close>: the three tests in turn, the first on the domain as the cleaner extracts
  it. A body that contains \<open>unsubscribe\<close> in any mix of upper and lower case is enough
  on its own.
\<close>

lemma is_newsletter_cases:
  assumes "from_field e = Some f" and "subject e = Some s" and "body e = Some b"
  shows "is_newsletter config e =
           Inr (list_ex (\<lambda>d. sublist (lower d) (lower (cleaner_extract_domain f)))
                  (newsletter_domains config)
                \<or> list_ex (\<lambda>k. sublist k (lower s))
                     [''newsletter'', ''subscribe'', ''update'', ''digest'', ''weekly'',
                      ''monthly'']
                \<or> sublist ''unsubscribe'' (lower b))
         \<and> (sublist u b \<and> lower u = ''unsubscribe'' \<longrightarrow> is_newsletter config e = Inr True)"
proof -
  have eq: "is_newsletter config e =
           Inr (list_ex (\<lambda>d. sublist (lower d) (lower (cleaner_extract_domain f)))
                  (newsletter_domains config)
                \<or> list_ex (\<lambda>k. sublist k (lower s))
                     [''newsletter'', ''subscribe'', ''update'', ''digest'', ''weekly'',
                      ''monthly'']
                \<or> sublist ''unsubscribe'' (lower b))"
    using assms by (simp add: is_newsletter_def newsletter_keywords_def)
  have "is_newsletter config e = Inr True" if "sublist u b \<and> lower u = ''unsubscribe''"
  proof -
    from that have in_body: "sublist u b" and folded: "lower u = ''unsubscribe''"
      by simp_all
    from lower_sublist [OF in_body] folded have "sublist ''unsubscribe'' (lower b)"
      by simp
    with eq show ?thesis by simp
  qed
  with eq show ?thesis by blast
qed

text \<open>
  Claim C7 at an email from \<open>MAILER-DAEMON\<close> with the subject \<open>Hello\<close> and the body
  \<open>Just saying hello\<close>, under \<open>newsletter_domains = ["daemon"]\<close>: \<open>is_newsletter\<close>
  returns True, although the sender has no domain (the address has no \<open>@\<close>, and the
  extraction of the label matcher gives the empty string), the subject contains none of
  the six keywords and the body does not contain \<open>unsubscribe\<close>.
\<close>

theorem is_newsletter_true_without_sender_domain:
  "is_newsletter (test_config\<lparr>newsletter_domains := [''daemon'']\<rparr>)
     (plain_mail ''1'' ''MAILER-DAEMON'') = Inr True
   \<and> from_field (plain_mail ''1'' ''MAILER-DAEMON'') = Some ''MAILER-DAEMON''
   \<and> subject (plain_mail ''1'' ''MAILER-DAEMON'') = Some ''Hello''
   \<and> body (plain_mail ''1'' ''MAILER-DAEMON'') = Some ''Just saying hello''
   \<and> classifier_extract_domain parseaddr_spec ''MAILER-DAEMON'' = ''''
   \<and> \<not> list_ex (\<lambda>d. sublist (lower d) (lower '''')) [''daemon'']
   \<and> \<not> list_ex (\<lambda>k. sublist k (lower ''Hello''))
         [''newsletter'', ''subscribe'', ''update'', ''digest'', ''weekly'', ''monthly'']
   \<and> \<not> sublist ''unsubscribe'' (lower ''Just saying hello'')"
  by code_simp

text \<open>
  Claim C9. \<open>is_read\<close> returns True iff the email carries labels that do not contain
  \<open>UNREAD\<close>, or carries flags that contain \<open>\Seen\<close>; an email with neither key is
  unread.
\<close>

theorem is_read_iff:
  "is_read e =
     ((\<exists>ls. labels e = Some ls \<and> ''UNREAD'' \<notin> set ls)
      \<or> (\<exists>fs. flags e = Some fs \<and> CHR 0x5C # ''Seen'' \<in> set fs))
   \<and> is_read (e\<lparr>labels := None, flags := None\<rparr>) = False"
  by (cases "labels e"; cases "flags e") (simp_all add: is_read_def seen_flag_def)

theorem is_read_iff_witness:
  "is_read ((plain_mail ''1'' ''a@b.c'')\<lparr>labels := Some [''INBOX'', ''CATEGORY_PERSONAL'']\<rparr>)
   \<and> \<not> is_read (plain_mail ''1'' ''a@b.c'')
   \<and> is_read ((plain_mail ''1'' ''a@b.c'')\<lparr>labels := None,
                  flags := Some [CHR 0x5C # ''Seen'', CHR 0x5C # ''Recent'']\<rparr>)
   \<and> \<not> is_read ((plain_mail ''1'' ''a@b.c'')\<lparr>labels := None,
                  flags := Some [CHR 0x5C # ''Recent'']\<rparr>)
   \<and> \<not> is_read ((plain_mail ''1'' ''a@b.c'')\<lparr>labels := None, flags := None\<rparr>)"
  using
    is_read_iff [of "(plain_mail ''1'' ''a@b.c'')\<lparr>labels := Some [''INBOX'', ''CATEGORY_PERSONAL'']\<rparr>"]
    is_read_iff [of "plain_mail ''1'' ''a@b.c''"]
    is_read_iff [of "(plain_mail ''1'' ''a@b.c'')\<lparr>labels := None,
                  flags := Some [CHR 0x5C # ''Seen'', CHR 0x5C # ''Recent'']\<rparr>"]
    is_read_iff [of "(plain_mail ''1'' ''a@b.c'')\<lparr>labels := None,
                  flags := Some [CHR 0x5C # ''Recent'']\<rparr>"]
  by (simp add: plain_mail_def)

lemma is_newsletter_ignores_age:
  "is_newsletter (config\<lparr>delete_older_than := v\<rparr>) e = is_newsletter config e"
  by (cases "from_field e"; cases "subject e"; cases "body e")
     (simp_all add: is_newsletter_def)

text \<open>
  Claim C10. A policy with \<open>delete_older_than = 0\<close> decides every email as the same
  policy without \<open>delete_older_than\<close> does; with the two other reasons switched
  off, it deletes nothing, whatever the date of the email.
\<close>

theorem delete_older_than_zero_is_absent:
  "should_delete parsedate now (config\<lparr>delete_older_than := Some 0\<rparr>) e
     = should_delete parsedate now (config\<lparr>delete_older_than := None\<rparr>) e
   \<and> should_delete parsedate now
       (config\<lparr>delete_newsletters := False, delete_older_than := Some 0,
               delete_read := False\<rparr>) e
     = Inr False"
  by (simp add: should_delete_def is_newsletter_ignores_age)

section \<open>The age test\<close>

lemma is_too_old_no_date:
  "date e = None \<Longrightarrow> is_too_old parsedate now e d = False"
  by (simp add: is_too_old_def is_too_old_try_def)

lemma is_too_old_unparsable:
  "date e = Some s \<Longrightarrow> parsedate s = Inl err \<Longrightarrow> is_too_old parsedate now e d = False"
  by (simp add: is_too_old_def is_too_old_try_def)

lemma is_too_old_aware:
  assumes "date e = Some s" and "parsedate s = Inr (Aware t)"
  shows "is_too_old parsedate now e d = False"
proof (cases "timedelta_days d")
  case (Inl err)
  with assms show ?thesis by (simp add: is_too_old_def is_too_old_try_def)
next
  case (Inr delta)
  with assms show ?thesis
    by (cases "datetime_sub now delta") (simp_all add: is_too_old_def is_too_old_try_def)
qed

lemma is_too_old_naive:
  assumes "date e = Some s" and "parsedate s = Inr (Naive t)"
    and "- 999999999 \<le> d" and "d \<le> 999999999"
    and "0 \<le> now - d * 86400000000" and "now - d * 86400000000 < datetime_end"
  shows "is_too_old parsedate now e d = (t < now - d * 86400000000)"
  using assms
  by (simp add: is_too_old_def is_too_old_try_def timedelta_days_def datetime_sub_def)

text \<open>
  Claim C8 at the date \<open>Mon, 16 Mar 2025 10:00:00 +0000\<close>, with the clock at
  2026-11-04 and a maximum age of 30 days: the date parses to an aware datetime that
  lies before the cut-off, and \<open>is_too_old\<close> returns False, because comparing it with
  the naive cut-off raises TypeError inside the \<open>try\<close>.
\<close>

theorem is_too_old_false_for_date_with_zone:
  "example_parsedate date_utc = Inr (Aware 63877716000000000)
   \<and> 63877716000000000 < example_now - 30 * 86400000000
   \<and> is_too_old_try example_parsedate example_now (plain_mail ''1'' ''sender@example.com'') 30
       = Inl TypeError
   \<and> is_too_old example_parsedate example_now (plain_mail ''1'' ''sender@example.com'') 30
       = False"
  by code_simp

section \<open>The delete decision\<close>

lemma is_newsletter_returns:
  "from_field e = Some f \<Longrightarrow> subject e = Some s \<Longrightarrow> body e = Some b
     \<Longrightarrow> \<exists>r. is_newsletter config e = Inr r"
  by (auto simp: is_newsletter_def)

lemma age_test_cases:
  "(case v of None \<Rightarrow> False | Some d \<Rightarrow> d \<noteq> 0 \<and> P d) = (\<exists>d. v = Some d \<and> d \<noteq> 0 \<and> P d)"
  by (cases v) simp_all

text \<open>
  Claim C4, amended. For an email that has the keys \<open>from\<close>, \<open>subject\<close> and \<open>body\<close>
  when newsletters are to be deleted, \<open>should_delete\<close> returns True iff
  (1) \<open>delete_newsletters\<close> is true and \<open>is_newsletter\<close> holds, or
  (2) \<open>delete_older_than\<close> is set to a number of days other than 0 and \<open>is_too_old\<close>
  holds for that many days, or (3) \<open>delete_read\<close> is true and \<open>is_read\<close> holds; it
  returns False otherwise.
\<close>

theorem should_delete_iff:
  assumes "delete_newsletters config
             \<longrightarrow> from_field e \<noteq> None \<and> subject e \<noteq> None \<and> body e \<noteq> None"
  shows "should_delete parsedate now config e =
           Inr ((delete_newsletters config \<and> is_newsletter config e = Inr True)
                \<or> (\<exists>d. delete_older_than config = Some d \<and> d \<noteq> 0
                       \<and> is_too_old parsedate now e d)
                \<or> (delete_read config \<and> is_read e))"
proof (cases "delete_newsletters config")
  case False
  then show ?thesis
    by (simp add: should_delete_def age_test_cases) (auto simp: or_else_def)
next
  case True
  with assms obtain r where r: "is_newsletter config e = Inr r"
    using is_newsletter_returns by fastforce
  show ?thesis
  proof (cases r)
    case True
    with r \<open>delete_newsletters config\<close> show ?thesis
      by (simp add: should_delete_def)
  next
    case False
    with r \<open>delete_newsletters config\<close> show ?thesis
      by (simp add: should_delete_def age_test_cases) (auto simp: or_else_def)
  qed
qed

theorem should_delete_iff_witness:
  "should_delete example_parsedate example_now test_config
     ((plain_mail ''2'' ''sender@example.com'')\<lparr>date := Some date_no_zone\<rparr>) = Inr True"
proof -
  let ?e = "(plain_mail ''2'' ''sender@example.com'')\<lparr>date := Some date_no_zone\<rparr>"
  have keys: "delete_newsletters test_config
                \<longrightarrow> from_field ?e \<noteq> None \<and> subject ?e \<noteq> None \<and> body ?e \<noteq> None"
    by code_simp
  have age: "delete_older_than test_config = Some 30 \<and> (30::int) \<noteq> 0
               \<and> is_too_old example_parsedate example_now ?e 30"
    by code_simp
  from should_delete_iff [OF keys, where parsedate = example_parsedate and now = example_now]
    age
  show ?thesis by simp
qed

text \<open>
  The claim as stated fails for \<open>delete_older_than = 0\<close>: the key is set and the
  email, dated 2025-03-16, is older than 0 days at the clock of 2026-11-04, yet the
  email is not deleted.
\<close>

theorem should_delete_age_zero_counterexample:
  "should_delete_spec example_parsedate example_now age_zero_config
     ((plain_mail ''2'' ''sender@example.com'')\<lparr>date := Some date_no_zone\<rparr>)
   \<and> should_delete example_parsedate example_now age_zero_config
       ((plain_mail ''2'' ''sender@example.com'')\<lparr>date := Some date_no_zone\<rparr>) = Inr False"
  by code_simp

section \<open>The batch operation\<close>

lemma up_to_first_Nil [simp]:
  "up_to_first stop [] = []"
  by (simp add: up_to_first_def)

lemma up_to_first_Cons [simp]:
  "up_to_first stop (x # xs) = (if stop x then [x] else x # up_to_first stop xs)"
  by (simp add: up_to_first_def)

lemma up_to_first_none:
  "\<not> list_ex stop xs \<Longrightarrow> up_to_first stop xs = xs"
  by (induction xs) simp_all

lemma up_to_first_append:
  "\<not> list_ex stop xs \<Longrightarrow> stop x \<Longrightarrow> up_to_first stop (xs @ x # ys) = xs @ [x]"
  by (induction xs) simp_all

text \<open>
  The loop adds to the count one for every email, up to and including the first one
  at which the body raises, that was deleted with success.
\<close>

lemma clean_loop_count:
  "fst (clean_loop parsedate now config delete_email emails n) =
     n + length (filter (deletion_succeeded parsedate now config delete_email)
                   (up_to_first (body_raises parsedate now config delete_email) emails))"
proof (induction emails arbitrary: n)
  case Nil
  show ?case by simp
next
  case (Cons e es)
  show ?case
  proof (cases "should_delete parsedate now config e")
    case (Inl err)
    then show ?thesis by (simp add: body_raises_def deletion_succeeded_def)
  next
    case wanted: (Inr wanted)
    show ?thesis
    proof (cases wanted)
      case False
      with wanted Cons.IH show ?thesis
        by (simp add: body_raises_def deletion_succeeded_def)
    next
      case True
      show ?thesis
      proof (cases "delete_email e")
        case (Inl err)
        with wanted True show ?thesis
          by (simp add: body_raises_def deletion_succeeded_def)
      next
        case ok: (Inr ok)
        show ?thesis
        proof (cases ok)
          case False
          with wanted True ok Cons.IH show ?thesis
            by (simp add: body_raises_def deletion_succeeded_def)
        next
          case deleted: True
          show ?thesis
          proof (cases "subject e")
            case None
            with wanted True ok deleted show ?thesis
              by (simp add: body_raises_def deletion_succeeded_def)
          next
            case (Some s)
            with wanted True ok deleted Cons.IH [of "Suc n"] show ?thesis
              by (simp add: body_raises_def deletion_succeeded_def)
          qed
        qed
      qed
    qed
  qed
qed

text \<open>
  Claim C1, amended. \<open>clean\<close> processes the emails in order up to and including the
  first one whose processing raises; that failure ends the loop, the emails after it
  are not processed, and the error is not propagated. The returned value counts
  exactly the emails, among those processed, that were to be deleted and for which
  the deletion callback returned success. When no email raises, that is every such
  email of the mailbox. If enumerating the mailbox fails, \<open>clean\<close> returns 0.
\<close>

theorem clean_counts_up_to_first_failure:
  "clean parsedate now config (Inl err) delete_email = 0
   \<and> clean parsedate now config (Inr emails) delete_email =
       length (filter (deletion_succeeded parsedate now config delete_email)
                 (up_to_first (body_raises parsedate now config delete_email) emails))
   \<and> (\<not> list_ex (body_raises parsedate now config delete_email) emails
     \<longrightarrow> clean parsedate now config (Inr emails) delete_email =
           length (filter (deletion_succeeded parsedate now config delete_email) emails))
   \<and> (\<not> list_ex (body_raises parsedate now config delete_email) xs
       \<and> body_raises parsedate now config delete_email e
     \<longrightarrow> clean parsedate now config (Inr (xs @ e # ys)) delete_email =
           length (filter (deletion_succeeded parsedate now config delete_email) (xs @ [e])))"
proof (intro conjI impI)
  show "clean parsedate now config (Inl err) delete_email = 0"
    by (simp add: clean_def)
next
  show "clean parsedate now config (Inr emails) delete_email =
       length (filter (deletion_succeeded parsedate now config delete_email)
                 (up_to_first (body_raises parsedate now config delete_email) emails))"
    by (simp add: clean_def clean_loop_count)
next
  assume "\<not> list_ex (body_raises parsedate now config delete_email) emails"
  then show "clean parsedate now config (Inr emails) delete_email =
           length (filter (deletion_succeeded parsedate now config delete_email) emails)"
    by (simp add: clean_def clean_loop_count up_to_first_none)
next
  assume "\<not> list_ex (body_raises parsedate now config delete_email) xs
       \<and> body_raises parsedate now config delete_email e"
  then show "clean parsedate now config (Inr (xs @ e # ys)) delete_email =
           length (filter (deletion_succeeded parsedate now config delete_email) (xs @ [e]))"
    by (simp add: clean_def clean_loop_count up_to_first_append)
qed

theorem clean_counts_up_to_first_failure_witness:
  "clean example_parsedate example_now test_config
     (Inr ([plain_mail ''2'' ''info@newsletter.com''] @ plain_mail ''1'' ''info@newsletter.com''
            # [plain_mail ''3'' ''info@newsletter.com'']))
     flaky_delete = 1
   \<and> clean example_parsedate example_now test_config
       (Inr [plain_mail ''2'' ''info@newsletter.com'', plain_mail ''3'' ''info@newsletter.com''])
       flaky_delete = 2"
proof -
  let ?m1 = "plain_mail ''1'' ''info@newsletter.com''"
  let ?m2 = "plain_mail ''2'' ''info@newsletter.com''"
  let ?m3 = "plain_mail ''3'' ''info@newsletter.com''"
  let ?raises = "body_raises example_parsedate example_now test_config flaky_delete"
  let ?ok = "deletion_succeeded example_parsedate example_now test_config flaky_delete"
  have stop: "\<not> list_ex ?raises [?m2] \<and> ?raises ?m1"
    by code_simp
  have count1: "length (filter ?ok ([?m2] @ [?m1])) = 1"
    by code_simp
  have quiet: "\<not> list_ex ?raises [?m2, ?m3]"
    by code_simp
  have count2: "length (filter ?ok [?m2, ?m3]) = 2"
    by code_simp
  note facts = clean_counts_up_to_first_failure [where parsedate = example_parsedate
      and now = example_now and config = test_config and delete_email = flaky_delete]
  from facts [where xs = "[?m2]" and e = ?m1 and ys = "[?m3]"] stop
  have "clean example_parsedate example_now test_config (Inr ([?m2] @ ?m1 # [?m3]))
          flaky_delete = length (filter ?ok ([?m2] @ [?m1]))"
    by blast
  moreover from facts [where emails = "[?m2, ?m3]"] quiet
  have "clean example_parsedate example_now test_config (Inr [?m2, ?m3]) flaky_delete
          = length (filter ?ok [?m2, ?m3])"
    by blast
  ultimately show ?thesis
    using count1 count2 by simp
qed

text \<open>
  The claim as stated fails when the adapter raises at the first of two newsletters:
  the loop ends there and \<open>clean\<close> returns 0, although the second newsletter is to be
  deleted and the callback would return success for it, which makes the count of the
  specification 1.
\<close>

theorem clean_aborts_counterexample:
  "clean example_parsedate example_now test_config
     (Inr [plain_mail ''1'' ''info@newsletter.com'', plain_mail ''2'' ''info@newsletter.com''])
     flaky_delete = 0
   \<and> clean_spec example_parsedate example_now test_config
       (Inr [plain_mail ''1'' ''info@newsletter.com'', plain_mail ''2'' ''info@newsletter.com''])
       flaky_delete = 1"
  by code_simp

end
